theory Spec2Isabelle
  imports Main "HOL-Library.Word"
begin

unbundle bit_operations_syntax

text \<open>
  A model of \<^verbatim>\<open>open_spiel/utils/file.cc\<close>: the path classifier, the directory
  operations, the file handle and the environment lookup. The file is compiled either
  for POSIX or with \<^verbatim>\<open>_WIN32\<close> defined; functions whose body depends on that take the
  flag \<open>win32\<close> as their first argument. Machine integers are those of an LP64
  platform: \<^verbatim>\<open>int\<close> has 32 bits, \<^verbatim>\<open>size_t\<close>, \<^verbatim>\<open>long\<close> and \<^verbatim>\<open>std::int64_t\<close> have 64.
  Lengths and offsets of 64 bits are modelled by \<open>nat\<close> and \<open>int\<close>: no string or file
  reaches their bound. The one 32-bit variable of the file is modelled as a 32-bit word.
\<close>

section \<open>Strings and the process environment\<close>

text \<open>
  A \<^verbatim>\<open>std::string\<close> is a sequence of bytes and may hold the byte 0. Every call into
  the C library passes \<^verbatim>\<open>s.c_str()\<close>, which the callee reads up to the first byte 0.
\<close>

definition c_str :: "string \<Rightarrow> string" where
  "c_str s = takeWhile (\<lambda>c. c \<noteq> CHR 0x00) s"

text \<open>
  The process environment is the list of (name, value) entries of \<^verbatim>\<open>environ\<close>;
  \<^verbatim>\<open>std::getenv\<close> returns the value of the first entry with the given name and the
  null pointer (\<open>None\<close>) when there is none. Nothing is cached: every function below
  takes the environment of the moment it is called.
\<close>

type_synonym environment = "(string \<times> string) list"

definition getenv :: "environment \<Rightarrow> string \<Rightarrow> string option" where
  "getenv env name = map_of env name"

text \<open>
  \<^verbatim>\<open>
  std::string GetEnv(const std::string& key, const std::string& default_value) {
    char* val = std::getenv(key.c_str());
    return ((val != nullptr) ? std::string(val) : default_value);
  }
  std::string GetTmpDir() { return GetEnv("TMPDIR", "/tmp"); }
  \<close>
  Neither function is under a platform conditional: the POSIX build and the Windows
  build compile the same two bodies.
\<close>

definition GetEnv :: "environment \<Rightarrow> string \<Rightarrow> string \<Rightarrow> string" where
  "GetEnv env key default_value =
     (case getenv env (c_str key) of
        Some val \<Rightarrow> val
      | None \<Rightarrow> default_value)"

definition GetTmpDir :: "environment \<Rightarrow> string" where
  "GetTmpDir env = GetEnv env ''TMPDIR'' ''/tmp''"

section \<open>Path classifier\<close>

abbreviation backslash :: char where
  "backslash \<equiv> CHR 0x5C"

text \<open>
  The separator set handed to \<^verbatim>\<open>find_first_of\<close>: the backslash and the slash.
\<close>

definition seps :: string where
  "seps = [backslash, CHR ''/'']"

text \<open>
  \<^verbatim>\<open>s.find_first_of(chars, pos)\<close> of \<^verbatim>\<open>std::string\<close>: the least index \<open>i \<ge> pos\<close>
  with \<open>s[i]\<close> among \<open>chars\<close>, and \<^verbatim>\<open>npos\<close> (\<open>None\<close>) when there is none, which
  includes every \<open>pos\<close> at or beyond the end. \<^verbatim>\<open>s.substr(0, n)\<close> is the first \<open>n\<close>
  bytes, and all of \<open>s\<close> when \<open>n\<close> is \<^verbatim>\<open>npos\<close>.
\<close>

primrec first_of_from :: "string \<Rightarrow> string \<Rightarrow> nat \<Rightarrow> nat option" where
  "first_of_from chars [] i = None"
| "first_of_from chars (c # cs) i =
     (if c \<in> set chars then Some i else first_of_from chars cs (Suc i))"

definition find_first_of :: "string \<Rightarrow> string \<Rightarrow> nat \<Rightarrow> nat option" where
  "find_first_of s chars pos = first_of_from chars (drop pos s) pos"

definition substr0 :: "string \<Rightarrow> nat option \<Rightarrow> string" where
  "substr0 s n = (case n of None \<Rightarrow> s | Some k \<Rightarrow> take k s)"

text \<open>
  \<^verbatim>\<open>
  size_t WindowsRootPrefixLengthImpl(const std::string& path) {
  #ifdef _WIN32
    if (path.size() > 1 && path[1] == ':') {
      size_t prefix = 2;
      if (path.size() > 2 && (path[2] == '\\' || path[2] == '/')) { ++prefix; }
      return prefix;
    }
    if (path.size() > 1 && path[0] == '\\' && path[1] == '\\') {
      size_t pos = path.find_first_of("\\/", 2);
      if (pos == std::string::npos) { return path.size(); }
      pos = path.find_first_of("\\/", pos + 1);
      if (pos == std::string::npos) { return path.size(); }
      return pos;
    }
  #endif
    (void)path;
    return 0;
  }
  size_t WindowsRootPrefixLength(const std::string& path) {
    return WindowsRootPrefixLengthImpl(path);
  }
  \<close>
  Every index read is guarded by the size test to its left, as in the source. The
  function reads its argument and nothing else.
\<close>

definition WindowsRootPrefixLengthImpl :: "bool \<Rightarrow> string \<Rightarrow> nat" where
  "WindowsRootPrefixLengthImpl win32 path =
     (if win32 then
        (if length path > 1 \<and> path ! 1 = CHR '':'' then
           (let prefix = 2
            in if length path > 2 \<and> (path ! 2 = backslash \<or> path ! 2 = CHR ''/'')
               then prefix + 1 else prefix)
         else if length path > 1 \<and> path ! 0 = backslash \<and> path ! 1 = backslash then
           (case find_first_of path seps 2 of
              None \<Rightarrow> length path
            | Some pos \<Rightarrow>
                (case find_first_of path seps (pos + 1) of
                   None \<Rightarrow> length path
                 | Some pos' \<Rightarrow> pos'))
         else 0)
      else 0)"

definition WindowsRootPrefixLength :: "bool \<Rightarrow> string \<Rightarrow> nat" where
  "WindowsRootPrefixLength win32 path = WindowsRootPrefixLengthImpl win32 path"


section \<open>Directory operations\<close>

text \<open>
  The file system as \<^verbatim>\<open>stat\<close> shows it: a path is bound to the \<^verbatim>\<open>st_mode\<close> of the
  entry it names, and \<^verbatim>\<open>stat\<close> fails (\<open>None\<close>) for a path that names nothing. The
  first binding of a path in the list is the one in force. \<^verbatim>\<open>st_mode\<close> is a
  \<^verbatim>\<open>mode_t\<close>, 32 bits wide. The file-type constants are those of \<^verbatim>\<open>sys/stat.h\<close> on
  Linux, the BSDs and macOS (octal 0170000, 0140000, 0100000, 0060000, 0040000,
  0020000, 0010000): the type of an entry is \<open>st_mode AND S_IFMT\<close>.
\<close>

type_synonym mode_t = "32 word"

type_synonym filesystem = "(string \<times> mode_t) list"

definition S_IFMT :: mode_t where "S_IFMT = 0xF000"
definition S_IFSOCK :: mode_t where "S_IFSOCK = 0xC000"
definition S_IFREG :: mode_t where "S_IFREG = 0x8000"
definition S_IFBLK :: mode_t where "S_IFBLK = 0x6000"
definition S_IFDIR :: mode_t where "S_IFDIR = 0x4000"
definition S_IFCHR :: mode_t where "S_IFCHR = 0x2000"
definition S_IFIFO :: mode_t where "S_IFIFO = 0x1000"

definition stat :: "filesystem \<Rightarrow> string \<Rightarrow> mode_t option" where
  "stat fs path = map_of fs path"

text \<open>
  \<^verbatim>\<open>
  bool Exists(const std::string& path) {
    struct stat info;
    return stat(path.c_str(), &info) == 0;
  }
  bool IsDirectory(const std::string& path) {
    struct stat info;
    return stat(path.c_str(), &info) == 0 && info.st_mode & S_IFDIR;
  }
  \<close>
  The second conjunct is the bitwise AND of the mode with \<^verbatim>\<open>S_IFDIR\<close>, converted to
  \<^verbatim>\<open>bool\<close>: true when the result is not zero.
\<close>

definition Exists :: "filesystem \<Rightarrow> string \<Rightarrow> bool" where
  "Exists fs path = (stat fs (c_str path) \<noteq> None)"

definition IsDirectory :: "filesystem \<Rightarrow> string \<Rightarrow> bool" where
  "IsDirectory fs path =
     (case stat fs (c_str path) of
        None \<Rightarrow> False
      | Some st_mode \<Rightarrow> st_mode AND S_IFDIR \<noteq> 0)"

text \<open>
  \<^verbatim>\<open>std::filesystem::exists\<close> and \<^verbatim>\<open>std::filesystem::is_directory\<close> of the C++
  library, which \<open>Mkdirs\<close> calls: they read the same status, and the second compares
  the type of the entry with the directory type.
\<close>

definition fs_exists :: "filesystem \<Rightarrow> string \<Rightarrow> bool" where
  "fs_exists fs p = (stat fs (c_str p) \<noteq> None)"

definition fs_is_directory :: "filesystem \<Rightarrow> string \<Rightarrow> bool" where
  "fs_is_directory fs p =
     (case stat fs (c_str p) of
        None \<Rightarrow> False
      | Some st_mode \<Rightarrow> st_mode AND S_IFMT = S_IFDIR)"

text \<open>
  The primitives that change the file system are parameters of the model, each a
  function of the file system before the call that returns its result and the file
  system after it:
  \<^item> \<open>sys_create_directories\<close>: \<^verbatim>\<open>std::filesystem::create_directories(p, ec)\<close>, returning
    its result, whether \<open>ec\<close> holds an error, and the new file system;
  \<^item> \<open>sys_mkdir\<close>: \<^verbatim>\<open>mkdir(dir, mode)\<close> of POSIX, returning 0 or -1;
  \<^item> \<open>sys_mkdir_win\<close>: \<^verbatim>\<open>_mkdir(dir)\<close>, which the Windows build substitutes by the macro
    \<^verbatim>\<open>#define mkdir(dir, mode) _mkdir(dir)\<close>;
  \<^item> \<open>sys_chmod\<close>: \<^verbatim>\<open>chmod(path, mode)\<close>, whose result the source ignores.
\<close>

record sys_calls =
  sys_create_directories :: "filesystem \<Rightarrow> string \<Rightarrow> bool \<times> bool \<times> filesystem"
  sys_mkdir :: "filesystem \<Rightarrow> string \<Rightarrow> int \<Rightarrow> int \<times> filesystem"
  sys_mkdir_win :: "filesystem \<Rightarrow> string \<Rightarrow> int \<times> filesystem"
  sys_chmod :: "filesystem \<Rightarrow> string \<Rightarrow> int \<Rightarrow> filesystem"

text \<open>
  \<^verbatim>\<open>
  bool Mkdir(const std::string& path, int mode) {
    return mkdir(path.c_str(), mode) == 0;
  }
  \<close>
\<close>

definition Mkdir ::
  "bool \<Rightarrow> sys_calls \<Rightarrow> filesystem \<Rightarrow> string \<Rightarrow> int \<Rightarrow> bool \<times> filesystem" where
  "Mkdir win32 sys fs path mode =
     (case (if win32 then sys_mkdir_win sys fs (c_str path)
            else sys_mkdir sys fs (c_str path) mode) of
        (r, fs') \<Rightarrow> (r = 0, fs'))"

text \<open>
  The fallback loop of \<open>Mkdirs\<close>:
  \<^verbatim>\<open>
  while (pos != std::string::npos) {
    pos = path.find_first_of("\\/", pos + 1);
    std::string sub_path = path.substr(0, pos);
    if (sub_path.empty()) { continue; }
    if (stat(sub_path.c_str(), &info) == 0) {
      if (info.st_mode & S_IFDIR) { continue; } else { return false; }
    }
    if (!Mkdir(sub_path, mode)) { return false; }
  }
  return true;
  \<close>
  The loop state is \<open>pos\<close> (\<open>None\<close> for \<^verbatim>\<open>npos\<close>) and the file system. Nothing in the
  definition bounds the number of iterations: a run that never leaves the loop has the
  value \<open>None\<close>.
\<close>

partial_function (option) mkdirs_loop ::
  "bool \<Rightarrow> sys_calls \<Rightarrow> int \<Rightarrow> string \<Rightarrow> nat option \<Rightarrow> filesystem
     \<Rightarrow> (bool \<times> filesystem) option"
where
  "mkdirs_loop win32 sys mode path pos fs =
     (case pos of
        None \<Rightarrow> Some (True, fs)
      | Some p \<Rightarrow>
          (let pos' = find_first_of path seps (p + 1);
               sub_path = substr0 path pos'
           in if sub_path = [] then mkdirs_loop win32 sys mode path pos' fs
              else
                (case stat fs (c_str sub_path) of
                   Some st_mode \<Rightarrow>
                     if st_mode AND S_IFDIR \<noteq> 0
                     then mkdirs_loop win32 sys mode path pos' fs
                     else Some (False, fs)
                 | None \<Rightarrow>
                     (case Mkdir win32 sys fs sub_path mode of
                        (ok, fs') \<Rightarrow>
                          if \<not> ok then Some (False, fs')
                          else mkdirs_loop win32 sys mode path pos' fs'))))"

declare mkdirs_loop.simps [code]

text \<open>
  \<^verbatim>\<open>
  bool Mkdirs(const std::string& path, int mode) {
    if (path.empty()) { return false; }
    std::error_code ec;
    std::filesystem::path fs_path(path);
    if (std::filesystem::create_directories(fs_path, ec)) {
  #ifndef _WIN32
      chmod(path.c_str(), mode);
  #endif
      return true;
    }
    if (!ec && std::filesystem::exists(fs_path)) {
      return std::filesystem::is_directory(fs_path);
    }
    struct stat info;
    size_t pos = internal::WindowsRootPrefixLength(path);
    while (pos != std::string::npos) { ... }
    return true;
  }
  \<close>
\<close>

definition Mkdirs ::
  "bool \<Rightarrow> sys_calls \<Rightarrow> filesystem \<Rightarrow> string \<Rightarrow> int \<Rightarrow> (bool \<times> filesystem) option"
where
  "Mkdirs win32 sys fs path mode =
     (if path = [] then Some (False, fs)
      else
        (case sys_create_directories sys fs path of
           (created, ec, fs1) \<Rightarrow>
             if created
             then Some (True, if win32 then fs1 else sys_chmod sys fs1 (c_str path) mode)
             else if \<not> ec \<and> fs_exists fs1 path
             then Some (fs_is_directory fs1 path, fs1)
             else mkdirs_loop win32 sys mode path
                    (Some (WindowsRootPrefixLength win32 path)) fs1))"

section \<open>File handle\<close>

text \<open>
  The C stream functions of \<^verbatim>\<open>cstdio\<close> that the file handle calls, over regular
  files. A disk binds a path to the bytes of the file there (the first binding of a path
  is the one in force), lists the paths that cannot be opened (a missing directory, a
  denied permission) and has room for \<open>free\<close> more bytes. A stream is the state of one
  \<^verbatim>\<open>std::FILE\<close>: the bytes of its file as the stream sees them, its file position
  indicator, the access its mode gives, whether every write goes to the end (mode
  \<^verbatim>\<open>a\<close>), the bytes the device still accepts, and the end-of-file and error
  indicators.
\<close>

record disk =
  files :: "(string \<times> string) list"
  refused :: "string list"
  free :: nat

record stream =
  file_name :: string
  bytes :: string
  position :: nat
  can_read :: bool
  can_write :: bool
  at_end :: bool
  space :: nat
  eof :: bool
  err :: bool

datatype whence = SEEK_SET | SEEK_END

text \<open>
  \<^verbatim>\<open>fopen\<close>: the first character of the mode selects reading an existing file
  (\<^verbatim>\<open>r\<close>), writing a new or truncated one (\<^verbatim>\<open>w\<close>) or appending (\<^verbatim>\<open>a\<close>); a \<^verbatim>\<open>+\<close>
  among the following characters gives the other access too, and an \<^verbatim>\<open>x\<close> among
  them makes \<^verbatim>\<open>w\<close> and \<^verbatim>\<open>a\<close> fail on a file that exists. A stream opened for
  appending starts at the end of its file. Any other mode, the empty name, a refused
  path, and a missing file in mode \<^verbatim>\<open>r\<close> give the null pointer.
\<close>

definition c_fopen :: "disk \<Rightarrow> string \<Rightarrow> string \<Rightarrow> (stream \<times> disk) option" where
  "c_fopen d filename mode =
     (case mode of
        [] \<Rightarrow> None
      | m # flags \<Rightarrow>
          if filename = [] \<or> filename \<in> set (refused d) then None
          else
            (let plus = (CHR ''+'' \<in> set flags);
                 taken = (CHR ''x'' \<in> set flags \<and> map_of (files d) filename \<noteq> None);
                 fresh = \<lparr>file_name = filename, bytes = [], position = 0, can_read = plus,
                          can_write = True, at_end = False, space = free d,
                          eof = False, err = False\<rparr>
             in if m = CHR ''r'' then
                  (case map_of (files d) filename of
                     None \<Rightarrow> None
                   | Some b \<Rightarrow>
                       Some (fresh\<lparr>bytes := b, can_read := True, can_write := plus\<rparr>, d))
                else if m = CHR ''w'' then
                  (if taken then None
                   else Some (fresh, d\<lparr>files := (filename, []) # files d\<rparr>))
                else if m = CHR ''a'' then
                  (if taken then None
                   else
                     (let b = (case map_of (files d) filename of None \<Rightarrow> [] | Some b \<Rightarrow> b)
                      in Some (fresh\<lparr>bytes := b, position := length b, at_end := True\<rparr>,
                               d\<lparr>files := (filename, b) # files d\<rparr>)))
                else None))"

text \<open>
  \<^verbatim>\<open>fclose\<close> stores what a writable stream holds; \<^verbatim>\<open>fflush\<close> has nothing to do on a
  stream that already shows its file as written. Both succeed (0).
\<close>

definition c_fclose :: "disk \<Rightarrow> stream \<Rightarrow> int \<times> disk" where
  "c_fclose d f =
     (0, if can_write f
         then d\<lparr>files := (file_name f, bytes f) # files d, free := space f\<rparr>
         else d)"

definition c_fflush :: "stream \<Rightarrow> int" where
  "c_fflush f = 0"

text \<open>
  \<^verbatim>\<open>ftell\<close> and \<^verbatim>\<open>fseek\<close>. A seek to a negative offset fails (-1) and leaves the
  stream as it is; any other seek succeeds, also beyond the end, and clears the
  end-of-file indicator.
\<close>

definition c_ftell :: "stream \<Rightarrow> int" where
  "c_ftell f = int (position f)"

definition c_fseek :: "stream \<Rightarrow> int \<Rightarrow> whence \<Rightarrow> int \<times> stream" where
  "c_fseek f offset origin =
     (let base = (case origin of SEEK_SET \<Rightarrow> 0 | SEEK_END \<Rightarrow> int (length (bytes f)));
          target = base + offset
      in if target < 0 then (- 1, f)
         else (0, f\<lparr>position := nat target, eof := False\<rparr>))"

text \<open>
  \<^verbatim>\<open>fread(buf, 1, count, f)\<close> returns the bytes read (their number is the function's
  result); \<^verbatim>\<open>fwrite(buf, 1, n, f)\<close> returns the number of bytes written, which is
  less than \<open>n\<close> when the stream is not writable or the device has no room for all of
  them. A write beyond the end fills the gap with zero bytes. The stream is modelled
  without a buffer: a write that the device cannot take in full is short at the call
  itself. A buffered stream behaves so for a write larger than its buffer; a smaller one
  it accepts in full, and the loss shows when the buffer is flushed. The two agree on a
  stream that is not writable and on a device with room for the write.
\<close>

definition c_fread :: "stream \<Rightarrow> nat \<Rightarrow> string \<times> stream" where
  "c_fread f count =
     (if \<not> can_read f then ([], f\<lparr>err := True\<rparr>)
      else
        (let chunk = take count (drop (position f) (bytes f))
         in (chunk, f\<lparr>position := position f + length chunk,
                       eof := eof f \<or> length chunk < count\<rparr>)))"

definition c_fwrite :: "stream \<Rightarrow> string \<Rightarrow> nat \<times> stream" where
  "c_fwrite f str =
     (if \<not> can_write f then (0, f\<lparr>err := True\<rparr>)
      else
        (let p = (if at_end f then length (bytes f) else position f);
             n = min (length str) (space f);
             old = bytes f @ replicate (p - length (bytes f)) (CHR 0x00)
         in (n, f\<lparr>bytes := take p old @ take n str @ drop (p + n) old,
                   position := p + n,
                   space := space f - n,
                   err := err f \<or> n < length str\<rparr>)))"

text \<open>
  The two ways a call leaves other than by returning: \<^verbatim>\<open>SPIEL_CHECK_TRUE\<close> ends the
  process, and \<^verbatim>\<open>std::string\<close> throws \<^verbatim>\<open>std::length_error\<close> when asked for more than
  its maximal size.
\<close>

datatype failure = CheckFailed | LengthError

text \<open>
  \<^verbatim>\<open>
  File::File(const std::string& filename, const std::string& mode) {
    fd_.reset(static_cast<FileImpl*>(std::fopen(filename.c_str(), mode.c_str())));
    SPIEL_CHECK_TRUE(fd_);
  }
  File::~File() { if (fd_) { Flush(); Close(); } }
  bool File::Close() { return !std::fclose(fd_.release()); }
  bool File::Flush() { return !std::fflush(fd_.get()); }
  std::int64_t File::Tell() { return std::ftell(fd_.get()); }
  bool File::Seek(std::int64_t offset) {
    return !std::fseek(fd_.get(), offset, SEEK_SET);
  }
  \<close>
  The methods are modelled on a handle that owns its stream.
\<close>

definition File_ctor :: "disk \<Rightarrow> string \<Rightarrow> string \<Rightarrow> failure + stream \<times> disk" where
  "File_ctor d filename mode =
     (case c_fopen d (c_str filename) (c_str mode) of
        None \<Rightarrow> Inl CheckFailed
      | Some opened \<Rightarrow> Inr opened)"

definition Close :: "disk \<Rightarrow> stream \<Rightarrow> bool \<times> disk" where
  "Close d f = (case c_fclose d f of (r, d') \<Rightarrow> (r = 0, d'))"

definition Flush :: "stream \<Rightarrow> bool" where
  "Flush f = (c_fflush f = 0)"

definition File_dtor :: "disk \<Rightarrow> stream \<Rightarrow> disk" where
  "File_dtor d f = (let flushed = Flush f in snd (Close d f))"

definition Tell :: "stream \<Rightarrow> int" where
  "Tell f = c_ftell f"

definition Seek :: "stream \<Rightarrow> int \<Rightarrow> bool \<times> stream" where
  "Seek f offset = (case c_fseek f offset SEEK_SET of (r, f') \<Rightarrow> (r = 0, f'))"

text \<open>
  \<^verbatim>\<open>
  std::string File::Read(std::int64_t count) {
    std::string out(count, '\0');
    int read = std::fread(out.data(), sizeof(char), count, fd_.get());
    out.resize(read);
    return out;
  }
  \<close>
  A negative \<open>count\<close> converts to a size beyond the maximal one, and the constructor of
  \<open>out\<close> throws. The result of \<^verbatim>\<open>fread\<close>, a \<^verbatim>\<open>size_t\<close>, is stored in an \<^verbatim>\<open>int\<close>: the
  value kept is the signed reading of its low 32 bits. \<^verbatim>\<open>resize\<close> takes a size again:
  a negative \<open>read\<close> converts to a size beyond the maximal one and \<^verbatim>\<open>resize\<close> throws;
  otherwise it keeps the first \<open>read\<close> bytes.
\<close>

definition Read :: "stream \<Rightarrow> int \<Rightarrow> failure + string \<times> stream" where
  "Read f count =
     (if count < 0 then Inl LengthError
      else
        (case c_fread f (nat count) of
           (chunk, f') \<Rightarrow>
             (let read = sint (word_of_nat (length chunk) :: 32 word)
              in if read < 0 then Inl LengthError
                 else Inr (take (nat read) chunk, f'))))"

text \<open>
  \<^verbatim>\<open>
  bool File::Write(absl::string_view str) {
    return std::fwrite(str.data(), sizeof(char), str.size(), fd_.get()) == str.size();
  }
  std::int64_t File::Length() {
    std::int64_t current = std::ftell(fd_.get());
    std::fseek(fd_.get(), 0, SEEK_END);
    std::int64_t length = std::ftell(fd_.get());
    std::fseek(fd_.get(), current, SEEK_SET);
    return length;
  }
  std::string File::ReadContents() {
    Seek(0);
    return Read(Length());
  }
  \<close>
\<close>

definition Write :: "stream \<Rightarrow> string \<Rightarrow> bool \<times> stream" where
  "Write f str = (case c_fwrite f str of (n, f') \<Rightarrow> (n = length str, f'))"

definition Length :: "stream \<Rightarrow> int \<times> stream" where
  "Length f =
     (let current = c_ftell f;
          f1 = snd (c_fseek f 0 SEEK_END);
          len = c_ftell f1;
          f2 = snd (c_fseek f1 current SEEK_SET)
      in (len, f2))"

definition ReadContents :: "stream \<Rightarrow> failure + string \<times> stream" where
  "ReadContents f =
     (let f1 = snd (Seek f 0)
      in case Length f1 of (len, f2) \<Rightarrow> Read f2 len)"

text \<open>
  \<^verbatim>\<open>
  std::string ReadContentsFromFile(const std::string& filename,
                                   const std::string& mode) {
    File f(filename, mode);
    return f.ReadContents();
  }
  void WriteContentsToFile(const std::string& filename, const std::string& mode,
                           const std::string& contents) {
    File f(filename, mode);
    f.Write(contents);
  }
  \<close>
  The handle is destroyed when the function returns. \<open>WriteContentsToFile\<close> returns
  nothing: the model returns the disk it leaves.
\<close>

definition ReadContentsFromFile ::
  "disk \<Rightarrow> string \<Rightarrow> string \<Rightarrow> failure + string \<times> disk" where
  "ReadContentsFromFile d filename mode =
     (case File_ctor d filename mode of
        Inl e \<Rightarrow> Inl e
      | Inr (f, d1) \<Rightarrow>
          (case ReadContents f of
             Inl e \<Rightarrow> Inl e
           | Inr (s, f1) \<Rightarrow> Inr (s, File_dtor d1 f1)))"

definition WriteContentsToFile ::
  "disk \<Rightarrow> string \<Rightarrow> string \<Rightarrow> string \<Rightarrow> failure + disk" where
  "WriteContentsToFile d filename mode contents =
     (case File_ctor d filename mode of
        Inl e \<Rightarrow> Inl e
      | Inr (f, d1) \<Rightarrow>
          (case Write f contents of
             (written, f1) \<Rightarrow> Inr (File_dtor d1 f1)))"

section \<open>Concrete inputs\<close>

text \<open>Environments: a POSIX one with \<^verbatim>\<open>TMPDIR\<close> empty and unset, and a Windows one.\<close>

definition env_tmpdir_empty :: environment where
  "env_tmpdir_empty = [(''HOME'', ''/root''), (''TMPDIR'', '''')]"

definition env_no_tmpdir :: environment where
  "env_no_tmpdir = [(''HOME'', ''/root'')]"

definition env_windows :: environment where
  "env_windows =
     [(''TMP'', ''C:/Users/u/tmp1''), (''TEMP'', ''C:/Users/u/tmp2''),
      (''LOCALAPPDATA'', ''C:/Users/u/tmp3'')]"

text \<open>
  File systems: one with a block device (mode 0660) and a socket (mode 0755), one with a
  home directory (directories of mode 0755) that holds a regular file (mode 0644), and
  the latter with one more regular file, whose name \<^verbatim>\<open>a\b\<close> holds a backslash (on
  POSIX a character of the name like any other).
\<close>

definition fs_dev :: filesystem where
  "fs_dev =
     [(''/dev'', S_IFDIR OR 0x1ED), (''/dev/sda'', S_IFBLK OR 0x1B0),
      (''/run'', S_IFDIR OR 0x1ED), (''/run/app.sock'', S_IFSOCK OR 0x1ED)]"

definition fs_home :: filesystem where
  "fs_home =
     [(''/home'', S_IFDIR OR 0x1ED), (''/home/u'', S_IFDIR OR 0x1ED),
      (''/home/u/notes.txt'', S_IFREG OR 0x1A4)]"

definition path_with_backslash :: string where
  "path_with_backslash = ''/home/u/a'' @ backslash # ''b''"

definition fs_backslash :: filesystem where
  "fs_backslash = (path_with_backslash, S_IFREG OR 0x1A4) # fs_home"

text \<open>
  Two platforms. On the first nothing can be created: \<^verbatim>\<open>create_directories\<close> creates
  nothing and reports an error unless its argument is a directory already, and
  \<^verbatim>\<open>mkdir\<close> fails. On the second \<^verbatim>\<open>create_directories\<close> is not supported (it always
  reports an error), and \<^verbatim>\<open>mkdir\<close> creates a directory of mode 0755 at any path that
  \<^verbatim>\<open>stat\<close> does not find.
\<close>

definition sys_readonly :: sys_calls where
  "sys_readonly =
     \<lparr>sys_create_directories = (\<lambda>fs p. (False, \<not> fs_is_directory fs p, fs)),
      sys_mkdir = (\<lambda>fs p mode. (- 1, fs)),
      sys_mkdir_win = (\<lambda>fs p. (- 1, fs)),
      sys_chmod = (\<lambda>fs p mode. fs)\<rparr>"

definition sys_fallback :: sys_calls where
  "sys_fallback =
     \<lparr>sys_create_directories = (\<lambda>fs p. (False, True, fs)),
      sys_mkdir = (\<lambda>fs p mode.
         if stat fs p = None then (0, (p, S_IFDIR OR 0x1ED) # fs) else (- 1, fs)),
      sys_mkdir_win = (\<lambda>fs p.
         if stat fs p = None then (0, (p, S_IFDIR OR 0x1ED) # fs) else (- 1, fs)),
      sys_chmod = (\<lambda>fs p mode. fs)\<rparr>"

text \<open>
  Disks: an empty one with room for a tebibyte, and one that holds a three-byte file.
  A string of \<open>2 ^ 31\<close> bytes, one of \<open>2 ^ 32 + 5\<close> bytes, and a stream in the
  middle of an eleven-byte file.
\<close>

definition disk_empty :: disk where
  "disk_empty = \<lparr>files = [], refused = [], free = 2 ^ 40\<rparr>"

definition disk_with_file :: disk where
  "disk_with_file = \<lparr>files = [(''/tmp/f'', ''old'')], refused = [], free = 2 ^ 40\<rparr>"

definition two_gib :: string where
  "two_gib = replicate (2 ^ 31) (CHR ''a'')"

definition four_gib_and_five :: string where
  "four_gib_and_five = replicate (2 ^ 32 + 5) (CHR ''a'')"

definition stream_mid :: stream where
  "stream_mid =
     \<lparr>file_name = ''/tmp/greeting'', bytes = ''hello world'', position = 6,
      can_read = True, can_write = False, at_end = False, space = 0,
      eof = True, err = False\<rparr>"

section \<open>Properties of the environment lookup\<close>

text \<open>
  Claim C9. \<open>GetEnv\<close> returns the default exactly in the case where the variable is
  not in the environment at all; a variable that is set yields its value whatever the
  default is, and a variable set to the empty string yields the empty string.
\<close>

theorem GetEnv_default_only_when_unset:
  "(getenv env (c_str key) = None \<longrightarrow> GetEnv env key default_value = default_value) \<and>
   (\<forall>val. getenv env (c_str key) = Some val \<longrightarrow> GetEnv env key default_value = val) \<and>
   (getenv env (c_str key) = Some '''' \<longrightarrow> GetEnv env key default_value = '''')"
  by (simp add: GetEnv_def)

theorem GetEnv_default_only_when_unset_witness:
  "getenv env_tmpdir_empty (c_str ''TMPDIR'') = Some '''' \<and>
   GetEnv env_tmpdir_empty ''TMPDIR'' ''/tmp'' = '''' \<and>
   getenv env_tmpdir_empty (c_str ''HOME'') = Some ''/root'' \<and>
   GetEnv env_tmpdir_empty ''HOME'' ''/tmp'' = ''/root'' \<and>
   getenv env_no_tmpdir (c_str ''TMPDIR'') = None \<and>
   GetEnv env_no_tmpdir ''TMPDIR'' ''/tmp'' = ''/tmp''"
proof -
  have e: "getenv env_tmpdir_empty (c_str ''TMPDIR'') = Some ''''"
    by (simp add: getenv_def env_tmpdir_empty_def c_str_def)
  have h: "getenv env_tmpdir_empty (c_str ''HOME'') = Some ''/root''"
    by (simp add: getenv_def env_tmpdir_empty_def c_str_def)
  have n: "getenv env_no_tmpdir (c_str ''TMPDIR'') = None"
    by (simp add: getenv_def env_no_tmpdir_def c_str_def)
  show ?thesis
    using e h n
      GetEnv_default_only_when_unset [of env_tmpdir_empty "''TMPDIR''" "''/tmp''"]
      GetEnv_default_only_when_unset [of env_tmpdir_empty "''HOME''" "''/tmp''"]
      GetEnv_default_only_when_unset [of env_no_tmpdir "''TMPDIR''" "''/tmp''"]
    by simp
qed

section \<open>Properties of the temporary directory\<close>

text \<open>
  Claim C1. The claim asks for \<^verbatim>\<open>/tmp\<close> when \<^verbatim>\<open>TMPDIR\<close> is set to the empty
  string. \<open>GetTmpDir\<close> makes no test on the value: with \<^verbatim>\<open>TMPDIR\<close> set to the empty
  string it returns the empty string, which names no directory.
\<close>

theorem GetTmpDir_empty_TMPDIR:
  "getenv env_tmpdir_empty ''TMPDIR'' = Some '''' \<and>
   GetTmpDir env_tmpdir_empty = '''' \<and>
   GetTmpDir env_tmpdir_empty \<noteq> ''/tmp''"
  by (simp add: GetTmpDir_def GetEnv_def getenv_def env_tmpdir_empty_def c_str_def)

text \<open>
  Claim C2. On a Windows build the claim asks for the first non-empty value among
  \<^verbatim>\<open>TMP\<close>, \<^verbatim>\<open>TEMP\<close> and \<^verbatim>\<open>LOCALAPPDATA\<close>. The function never reads them: with all
  three set (and \<^verbatim>\<open>TMPDIR\<close> not set) it returns \<^verbatim>\<open>/tmp\<close>.
\<close>

theorem GetTmpDir_windows_ignores_TMP:
  "getenv env_windows ''TMP'' = Some ''C:/Users/u/tmp1'' \<and>
   GetTmpDir env_windows = ''/tmp''"
  by (simp add: GetTmpDir_def GetEnv_def getenv_def env_windows_def c_str_def)

section \<open>Searching for a separator\<close>



lemma first_of_from_Some:
  "first_of_from chars xs i = Some q \<Longrightarrow>
   i \<le> q \<and> q < i + length xs \<and> xs ! (q - i) \<in> set chars"
proof (induction xs arbitrary: i)
  case Nil
  then show ?case by simp
next
  case (Cons c cs)
  show ?case
  proof (cases "c \<in> set chars")
    case True
    with Cons.prems show ?thesis by simp
  next
    case False
    with Cons.prems have "first_of_from chars cs (Suc i) = Some q" by simp
    from Cons.IH [OF this] show ?thesis by (auto simp: nth_Cons')
  qed
qed

lemma find_first_of_Some:
  assumes "find_first_of s chars pos = Some q"
  shows "pos \<le> q \<and> q < length s \<and> s ! q \<in> set chars"
proof -
  from assms have f: "first_of_from chars (drop pos s) pos = Some q"
    by (simp add: find_first_of_def)
  have le: "pos \<le> length s"
  proof (rule ccontr)
    assume "\<not> pos \<le> length s"
    then have "drop pos s = []" by simp
    with f show False by simp
  qed
  from first_of_from_Some [OF f] le show ?thesis by auto
qed


section \<open>Properties of the path classifier\<close>











section \<open>Properties of the directory test\<close>

lemma directory_has_bit: "(m :: mode_t) AND S_IFMT = S_IFDIR \<Longrightarrow> m AND S_IFDIR \<noteq> 0"
proof -
  assume a: "m AND S_IFMT = S_IFDIR"
  have "m AND S_IFDIR = (m AND S_IFMT) AND S_IFDIR"
    by (simp add: S_IFMT_def S_IFDIR_def and.assoc)
  also have "\<dots> = S_IFDIR" by (simp add: a)
  finally show ?thesis by (simp add: S_IFDIR_def)
qed

lemma regular_lacks_bit: "(m :: mode_t) AND S_IFMT = S_IFREG \<Longrightarrow> m AND S_IFDIR = 0"
proof -
  assume a: "m AND S_IFMT = S_IFREG"
  have "m AND S_IFDIR = (m AND S_IFMT) AND S_IFDIR"
    by (simp add: S_IFMT_def S_IFDIR_def and.assoc)
  also have "\<dots> = 0" by (simp add: a S_IFREG_def S_IFDIR_def)
  finally show ?thesis .
qed

text \<open>
  What \<open>IsDirectory\<close> gets right: a path that names nothing and a regular file are not
  directories, and a directory is one.
\<close>

lemma IsDirectory_missing: "stat fs (c_str p) = None \<Longrightarrow> \<not> IsDirectory fs p"
  by (simp add: IsDirectory_def)

lemma IsDirectory_directory:
  "stat fs (c_str p) = Some m \<Longrightarrow> m AND S_IFMT = S_IFDIR \<Longrightarrow> IsDirectory fs p"
  by (simp add: IsDirectory_def directory_has_bit)

lemma IsDirectory_regular:
  "stat fs (c_str p) = Some m \<Longrightarrow> m AND S_IFMT = S_IFREG \<Longrightarrow> \<not> IsDirectory fs p"
  by (simp add: IsDirectory_def regular_lacks_bit)

text \<open>
  Claim C3. The claim asks for \<open>False\<close> on an entry of any type but directory, a
  block device and a socket by name. The test is a bitwise AND with \<^verbatim>\<open>S_IFDIR\<close>, and
  the type codes of a block device (octal 060000) and of a socket (octal 140000) both
  hold the bit of \<^verbatim>\<open>S_IFDIR\<close> (octal 040000): for both entries, whose type is not
  directory, \<open>IsDirectory\<close> is \<open>True\<close>.
\<close>

theorem IsDirectory_block_device_and_socket:
  "stat fs_dev (c_str ''/dev/sda'') = Some (S_IFBLK OR 0x1B0) \<and>
   (S_IFBLK OR 0x1B0) AND S_IFMT = S_IFBLK \<and> S_IFBLK \<noteq> S_IFDIR \<and>
   IsDirectory fs_dev ''/dev/sda'' = True \<and>
   stat fs_dev (c_str ''/run/app.sock'') = Some (S_IFSOCK OR 0x1ED) \<and>
   (S_IFSOCK OR 0x1ED) AND S_IFMT = S_IFSOCK \<and> S_IFSOCK \<noteq> S_IFDIR \<and>
   IsDirectory fs_dev ''/run/app.sock'' = True"
  by (simp add: IsDirectory_def stat_def fs_dev_def c_str_def
      S_IFBLK_def S_IFSOCK_def S_IFDIR_def S_IFMT_def)

section \<open>Properties of recursive creation\<close>

lemma mkdirs_loop_returns:
  "\<exists>r. mkdirs_loop win32 sys mode path pos fs = Some r"
proof (induction "case pos of None \<Rightarrow> 0 | Some p \<Rightarrow> Suc (length path - p)"
    arbitrary: pos fs rule: less_induct)
  case less
  show ?case
  proof (cases pos)
    case None
    then show ?thesis by (subst mkdirs_loop.simps) auto
  next
    case (Some p)
    define pos' where "pos' = find_first_of path seps (Suc p)"
    have smaller: "(case pos' of None \<Rightarrow> 0 | Some p' \<Rightarrow> Suc (length path - p'))
                   < (case pos of None \<Rightarrow> 0 | Some p \<Rightarrow> Suc (length path - p))"
    proof (cases pos')
      case None
      with Some show ?thesis by simp
    next
      case (Some q)
      then have "find_first_of path seps (Suc p) = Some q" by (simp add: pos'_def)
      from find_first_of_Some [OF this] have "p < q" "q < length path" by simp_all
      with Some \<open>pos = Some p\<close> show ?thesis by simp
    qed
    have next_call: "\<And>fs'. \<exists>r. mkdirs_loop win32 sys mode path pos' fs' = Some r"
      using less [OF smaller] .
    show ?thesis
      apply (subst mkdirs_loop.simps)
      using next_call
      apply (auto simp: Some pos'_def Let_def split: option.split prod.split)
      done
  qed
qed

lemma Mkdirs_returns: "\<exists>r. Mkdirs win32 sys fs path mode = Some r"
  using mkdirs_loop_returns [of win32 sys mode path]
  by (auto simp: Mkdirs_def split: prod.split)

text \<open>
  Claim C10. The fallback loop ends on every path, whatever the primitives answer:
  \<open>Mkdirs\<close>, and the loop from any position and file system, return a result. The
  position the search returns is beyond the one it started from and inside the string,
  so each iteration moves the position forward until the search returns \<^verbatim>\<open>npos\<close>.
\<close>

theorem Mkdirs_terminates:
  "(\<exists>r. Mkdirs win32 sys fs path mode = Some r) \<and>
   (\<exists>r. mkdirs_loop win32 sys mode path pos fs = Some r) \<and>
   (\<forall>q. find_first_of path seps (p + 1) = Some q \<longrightarrow> p < q \<and> q < length path)"
proof -
  have "\<forall>q. find_first_of path seps (p + 1) = Some q \<longrightarrow> p < q \<and> q < length path"
    using find_first_of_Some [of path seps "p + 1"] by auto
  with Mkdirs_returns [of win32 sys fs path mode]
    mkdirs_loop_returns [of win32 sys mode path pos fs]
  show ?thesis by blast
qed

theorem Mkdirs_terminates_witness:
  "find_first_of ''/home/u/a/b'' seps (0 + 1) = Some 5 \<and>
   (0 :: nat) < 5 \<and> (5 :: nat) < length ''/home/u/a/b'' \<and>
   find_first_of ''/home/u/a/b'' seps (9 + 1) = None \<and>
   Mkdirs False sys_fallback fs_home ''/home/u/a/b'' 493 =
     Some (True, (''/home/u/a/b'', S_IFDIR OR 0x1ED) # (''/home/u/a'', S_IFDIR OR 0x1ED)
                   # fs_home)"
proof -
  have a: "find_first_of ''/home/u/a/b'' seps (0 + 1) = Some 5"
    by code_simp
  have b: "find_first_of ''/home/u/a/b'' seps (9 + 1) = None"
    by code_simp
  have c: "Mkdirs False sys_fallback fs_home ''/home/u/a/b'' 493 =
     Some (True, (''/home/u/a/b'', S_IFDIR OR 0x1ED) # (''/home/u/a'', S_IFDIR OR 0x1ED)
                   # fs_home)"
    by code_simp
  show ?thesis
    using a b c Mkdirs_terminates [of False sys_fallback fs_home "''/home/u/a/b''" 493 None 0]
    by simp
qed

text \<open>
  On an entry that exists, where \<^verbatim>\<open>create_directories\<close> creates nothing, changes
  nothing and reports no error, \<open>Mkdirs\<close> returns whether the entry is a directory and
  leaves the file system as it was. The fallback loop is not entered.
\<close>

lemma Mkdirs_existing_no_error:
  assumes "path \<noteq> []"
    and "sys_create_directories sys fs path = (False, False, fs)"
    and "fs_exists fs path"
  shows "Mkdirs win32 sys fs path mode = Some (fs_is_directory fs path, fs)"
  using assms by (simp add: Mkdirs_def)

text \<open>
  Claim C5. The claim asks for \<open>False\<close> on an existing entry that is not a directory,
  and for a call that changes nothing on a target that exists. Where
  \<^verbatim>\<open>create_directories\<close> reports an error for such a target, \<open>Mkdirs\<close> enters the
  fallback loop, which tests the mode with the bitwise AND of \<open>IsDirectory\<close> and
  splits the path at backslashes on POSIX too:
  \<^item> on an existing socket and on an existing block device, neither of them a
    directory, \<open>Mkdirs\<close> returns \<open>True\<close>;
  \<^item> on the existing regular file \<^verbatim>\<open>/home/u/a\b\<close> it returns \<open>False\<close>, but first
    creates the directory \<^verbatim>\<open>/home/u/a\<close>, which was not there.
\<close>

theorem Mkdirs_fallback_on_existing_entries:
  "stat fs_dev (c_str ''/run/app.sock'') = Some (S_IFSOCK OR 0x1ED) \<and>
   \<not> fs_is_directory fs_dev ''/run/app.sock'' \<and>
   sys_create_directories sys_readonly fs_dev ''/run/app.sock'' = (False, True, fs_dev) \<and>
   Mkdirs False sys_readonly fs_dev ''/run/app.sock'' 493 = Some (True, fs_dev) \<and>
   stat fs_dev (c_str ''/dev/sda'') = Some (S_IFBLK OR 0x1B0) \<and>
   \<not> fs_is_directory fs_dev ''/dev/sda'' \<and>
   sys_create_directories sys_readonly fs_dev ''/dev/sda'' = (False, True, fs_dev) \<and>
   Mkdirs False sys_readonly fs_dev ''/dev/sda'' 493 = Some (True, fs_dev) \<and>
   stat fs_backslash (c_str path_with_backslash) = Some (S_IFREG OR 0x1A4) \<and>
   stat fs_backslash ''/home/u/a'' = None \<and>
   sys_create_directories sys_fallback fs_backslash path_with_backslash
     = (False, True, fs_backslash) \<and>
   Mkdirs False sys_fallback fs_backslash path_with_backslash 493
     = Some (False, (''/home/u/a'', S_IFDIR OR 0x1ED) # fs_backslash)"
proof -
  have s1: "stat fs_dev (c_str ''/run/app.sock'') = Some (S_IFSOCK OR 0x1ED)"
    by code_simp
  have s2: "\<not> fs_is_directory fs_dev ''/run/app.sock''"
    by code_simp
  have s3: "sys_create_directories sys_readonly fs_dev ''/run/app.sock''
            = (False, True, fs_dev)"
    using s2 by (simp add: sys_readonly_def)
  have s4: "Mkdirs False sys_readonly fs_dev ''/run/app.sock'' 493 = Some (True, fs_dev)"
    by code_simp
  have b1: "stat fs_dev (c_str ''/dev/sda'') = Some (S_IFBLK OR 0x1B0)"
    by code_simp
  have b2: "\<not> fs_is_directory fs_dev ''/dev/sda''"
    by code_simp
  have b3: "sys_create_directories sys_readonly fs_dev ''/dev/sda'' = (False, True, fs_dev)"
    using b2 by (simp add: sys_readonly_def)
  have b4: "Mkdirs False sys_readonly fs_dev ''/dev/sda'' 493 = Some (True, fs_dev)"
    by code_simp
  have r1: "stat fs_backslash (c_str path_with_backslash) = Some (S_IFREG OR 0x1A4)"
    by code_simp
  have r2: "stat fs_backslash ''/home/u/a'' = None"
    by code_simp
  have r3: "sys_create_directories sys_fallback fs_backslash path_with_backslash
            = (False, True, fs_backslash)"
    by (simp add: sys_fallback_def)
  have r4: "Mkdirs False sys_fallback fs_backslash path_with_backslash 493
            = Some (False, (''/home/u/a'', S_IFDIR OR 0x1ED) # fs_backslash)"
    by code_simp
  show ?thesis
    using s1 s2 s3 s4 b1 b2 b3 b4 r1 r2 r3 r4 by blast
qed

section \<open>Properties of the file handle\<close>

text \<open>
  Claim C7. On every stream (any contents, any position, also one beyond the end, any
  access mode and any indicators) \<open>Length\<close> returns the number of bytes of the file and
  leaves the stream with the position it had: \<open>Tell\<close> gives the same value after the
  call as before it. The contents are the same as well.
\<close>

theorem Length_returns_size_and_keeps_position:
  "fst (Length f) = int (length (bytes f)) \<and>
   Tell (snd (Length f)) = Tell f \<and>
   bytes (snd (Length f)) = bytes f"
  by (simp add: Length_def Tell_def c_ftell_def c_fseek_def Let_def)

theorem Length_returns_size_and_keeps_position_witness:
  "Tell stream_mid = 6 \<and> fst (Length stream_mid) = 11 \<and>
   Tell (snd (Length stream_mid)) = 6"
  using Length_returns_size_and_keeps_position [of stream_mid]
  by (simp add: stream_mid_def Tell_def c_ftell_def)

lemma sint_small: "n < 2 ^ 31 \<Longrightarrow> sint (word_of_nat n :: 32 word) = int n"
proof -
  assume a: "n < 2 ^ 31"
  have "sint (word_of_nat n :: 32 word) = signed_take_bit 31 (int n)"
    by (simp add: signed_of_nat)
  also have "\<dots> = int n"
    by (rule signed_take_bit_int_eq_self) (use a in simp_all)
  finally show ?thesis .
qed

text \<open>
  The round trip, for a string below \<open>2 ^ 31\<close> bytes. On a handle opened with mode
  \<^verbatim>\<open>w\<close> on a disk with room for \<open>s\<close>, \<open>Write\<close> returns \<open>True\<close> and leaves position and
  length at \<open>length s\<close> (for a string of any size); after the handle is destroyed,
  reading the file back returns \<open>s\<close> when \<open>s\<close> is shorter than \<open>2 ^ 31\<close> bytes.
\<close>

lemma Write_then_read_back:
  assumes o: "File_ctor d name ''w'' = Inr (f, d1)"
    and room: "length s \<le> free d"
    and w: "f1 = snd (Write f s)"
  shows "fst (Write f s)"
    and "Tell f1 = int (length s)"
    and "fst (Length f1) = int (length s)"
    and "length s < 2 ^ 31 \<Longrightarrow>
         ReadContentsFromFile (File_dtor d1 f1) name ''r'' = Inr (s, File_dtor d1 f1)"
proof -
  from o have nr: "c_str name \<noteq> []" "c_str name \<notin> set (refused d)"
    and f: "f = \<lparr>file_name = c_str name, bytes = [], position = 0, can_read = False,
                 can_write = True, at_end = False, space = free d, eof = False, err = False\<rparr>"
    and d1: "d1 = d\<lparr>files := (c_str name, []) # files d\<rparr>"
    by (auto simp: File_ctor_def c_fopen_def c_str_def Let_def split: if_splits)
  from room show "fst (Write f s)"
    by (simp add: Write_def c_fwrite_def f Let_def min_def)
  from w room have f1: "f1 = f\<lparr>bytes := s, position := length s, space := free d - length s\<rparr>"
    by (simp add: Write_def c_fwrite_def f Let_def min_def)
  show "Tell f1 = int (length s)" by (simp add: Tell_def c_ftell_def f1)
  show "fst (Length f1) = int (length s)"
    by (simp add: Length_def c_ftell_def c_fseek_def Let_def f1)
  assume small: "length s < 2 ^ 31"
  define D where "D = File_dtor d1 f1"
  have D: "c_str name \<notin> set (refused D)" "map_of (files D) (c_str name) = Some s"
    using nr by (simp_all add: D_def File_dtor_def Close_def c_fclose_def f1 f d1 Let_def)
  have "ReadContentsFromFile D name ''r'' = Inr (s, D)"
    using D nr(1) small
    by (simp add: ReadContentsFromFile_def File_ctor_def c_fopen_def c_str_def
        ReadContents_def Seek_def Length_def c_fseek_def c_ftell_def Read_def c_fread_def
        Let_def sint_small File_dtor_def Close_def c_fclose_def)
  then show "ReadContentsFromFile (File_dtor d1 f1) name ''r'' = Inr (s, File_dtor d1 f1)"
    by (simp add: D_def)
qed

text \<open>
  Claim C6. The claim is made for every byte string. For a string of \<open>2 ^ 31\<close> bytes,
  written to a fresh file on a disk with room for it, the write succeeds and position
  and length are \<open>2 ^ 31\<close>, as claimed; but reading the contents back does not return
  the string: \<open>Read\<close> stores the count \<open>2 ^ 31\<close> in an \<^verbatim>\<open>int\<close>, where it is
  \<open>- (2 ^ 31)\<close>, and \<^verbatim>\<open>resize\<close> throws. For a string of \<open>2 ^ 32 + 5\<close> bytes the
  \<^verbatim>\<open>int\<close> holds 5, and the read returns the first five bytes only.
\<close>

theorem ReadContents_fails_from_two_gib:
  "(case File_ctor disk_empty ''/tmp/big'' ''w'' of
      Inl e \<Rightarrow> False
    | Inr (f, d1) \<Rightarrow>
        (case Write f two_gib of
           (ok, f1) \<Rightarrow>
              ok \<and> Tell f1 = 2 ^ 31 \<and> fst (Length f1) = 2 ^ 31 \<and>
              ReadContentsFromFile (File_dtor d1 f1) ''/tmp/big'' ''r'' = Inl LengthError)) \<and>
   (case File_ctor disk_empty ''/tmp/big'' ''w'' of
      Inl e \<Rightarrow> False
    | Inr (f, d1) \<Rightarrow>
        (case Write f four_gib_and_five of
           (ok, f1) \<Rightarrow>
              ok \<and> Tell f1 = 2 ^ 32 + 5 \<and> fst (Length f1) = 2 ^ 32 + 5 \<and>
              (case ReadContentsFromFile (File_dtor d1 f1) ''/tmp/big'' ''r'' of
                 Inl e \<Rightarrow> False
               | Inr (s, d2) \<Rightarrow> s = replicate 5 (CHR ''a'') \<and> s \<noteq> four_gib_and_five)))"
  by (simp add: File_ctor_def c_fopen_def c_str_def disk_empty_def two_gib_def
      four_gib_and_five_def Let_def
      Write_def c_fwrite_def Tell_def c_ftell_def Length_def c_fseek_def
      ReadContentsFromFile_def ReadContents_def Seek_def Read_def c_fread_def
      File_dtor_def Close_def c_fclose_def Flush_def)

text \<open>
  Claim C8. Once the file is open, \<open>WriteContentsToFile\<close> returns normally, and what it
  leaves is the disk after the handle's destruction: the first component of the result
  of \<open>Write\<close>, which tells whether every byte was written, is not part of the outcome.
  In particular the function returns normally when \<open>Write\<close> returned \<open>False\<close>. The one
  way it does not return is the failed check of the constructor.
\<close>

theorem WriteContentsToFile_drops_Write_result:
  "(File_ctor d filename mode = Inr (f, d1) \<longrightarrow>
      WriteContentsToFile d filename mode contents
        = Inr (File_dtor d1 (snd (Write f contents)))) \<and>
   (File_ctor d filename mode = Inr (f, d1) \<and> \<not> fst (Write f contents) \<longrightarrow>
      (\<exists>d'. WriteContentsToFile d filename mode contents = Inr d')) \<and>
   (\<forall>e. WriteContentsToFile d filename mode contents = Inl e \<longrightarrow>
      File_ctor d filename mode = Inl e)"
  by (auto simp: WriteContentsToFile_def split: prod.splits sum.splits)

theorem WriteContentsToFile_drops_Write_result_witness:
  "(case File_ctor disk_with_file ''/tmp/f'' ''r'' of
      Inl e \<Rightarrow> False
    | Inr (f, d1) \<Rightarrow>
        \<not> fst (Write f ''hello'') \<and>
        WriteContentsToFile disk_with_file ''/tmp/f'' ''r'' ''hello''
          = Inr (File_dtor d1 (snd (Write f ''hello'')))) \<and>
   (case WriteContentsToFile disk_with_file ''/tmp/f'' ''r'' ''hello'' of
      Inl e \<Rightarrow> False
    | Inr d' \<Rightarrow> map_of (files d') ''/tmp/f'' = Some ''old'')"
proof -
  obtain f d1 where o: "File_ctor disk_with_file ''/tmp/f'' ''r'' = Inr (f, d1)"
    by (simp add: File_ctor_def c_fopen_def c_str_def disk_with_file_def Let_def)
  have failed: "\<not> fst (Write f ''hello'')"
    using o
    by (auto simp: File_ctor_def c_fopen_def c_str_def disk_with_file_def Let_def
        Write_def c_fwrite_def)
  have kept: "map_of (files (File_dtor d1 (snd (Write f ''hello'')))) ''/tmp/f'' = Some ''old''"
    using o
    by (auto simp: File_ctor_def c_fopen_def c_str_def disk_with_file_def Let_def
        Write_def c_fwrite_def File_dtor_def Close_def c_fclose_def)
  show ?thesis
    using o failed kept
      WriteContentsToFile_drops_Write_result
        [of disk_with_file "''/tmp/f''" "''r''" f d1 "''hello''"]
    by simp
qed

end
